theory Spec2Isabelle
  imports Main "HOL-Library.Word"
begin

section \<open>JavaScript values, template literals and objects\<close>

text \<open>
  The installer (\<^verbatim>\<open>src/install.js\<close>) handles three kinds of values in its configuration
  objects and query strings: absent properties (\<^verbatim>\<open>undefined\<close>), strings (every
  answer of an \<^verbatim>\<open>input\<close> prompt, every query parameter) and numbers
  (\<^verbatim>\<open>DEFAULT_PORT\<close>, the numbers of the configuration examples). Numbers are the
  integers whose decimal rendering JavaScript prints in full.
\<close>

datatype jsval = JUndefined | JStr string | JNum int

text \<open>Truthiness, as the operator \<^verbatim>\<open>||\<close> tests it.\<close>

fun truthy :: "jsval \<Rightarrow> bool" where
  "truthy JUndefined = False"
| "truthy (JStr s) = (s \<noteq> [])"
| "truthy (JNum n) = (n \<noteq> 0)"

text \<open>\<^verbatim>\<open>a || b\<close> for operands without effects.\<close>

definition js_or :: "jsval \<Rightarrow> jsval \<Rightarrow> jsval" where
  "js_or a b = (if truthy a then a else b)"

definition digit_char :: "nat \<Rightarrow> char" where
  "digit_char n = ''0123456789abcdef'' ! n"

fun decimal :: "nat \<Rightarrow> string" where
  "decimal n = (if n < 10 then [digit_char n] else decimal (n div 10) @ [digit_char (n mod 10)])"

text \<open>The conversion to string that a template literal \<^verbatim>\<open>${v}\<close> applies.\<close>

fun template :: "jsval \<Rightarrow> string" where
  "template JUndefined = ''undefined''"
| "template (JStr s) = s"
| "template (JNum n) = (if n < 0 then ''-'' @ decimal (nat (- n)) else decimal (nat n))"

text \<open>
  A plain object is the list of its own properties in the order \<^verbatim>\<open>Object.entries\<close>
  enumerates them: the integer-like keys (array indices, the canonical decimal strings from
  \<^verbatim>\<open>0\<close> to \<^verbatim>\<open>4294967294\<close>) in ascending numeric order first, then every other string key in
  the order of its first assignment. Reading an absent property gives \<^verbatim>\<open>undefined\<close>; the
  installer reads only property names that \<^verbatim>\<open>Object.prototype\<close> does not define.
\<close>

type_synonym obj = "(string \<times> jsval) list"

definition get_prop :: "obj \<Rightarrow> string \<Rightarrow> jsval" where
  "get_prop ob k = (case map_of ob k of None \<Rightarrow> JUndefined | Some v \<Rightarrow> v)"

definition is_digit :: "char \<Rightarrow> bool" where
  "is_digit c = (c \<in> set ''0123456789'')"

definition digit_value :: "char \<Rightarrow> nat" where
  "digit_value c = of_char c - 48"

definition decimal_value :: "string \<Rightarrow> nat" where
  "decimal_value s = foldl (\<lambda>n c. 10 * n + digit_value c) 0 s"

text \<open>An array index: digits only, no leading zero except in \<^verbatim>\<open>0\<close> itself, at most \<open>2\<^sup>3\<^sup>2 - 2\<close>.\<close>

definition is_array_index :: "string \<Rightarrow> bool" where
  "is_array_index k =
     (k \<noteq> [] \<and> list_all is_digit k \<and> (k = ''0'' \<or> hd k \<noteq> CHR ''0'') \<and> decimal_value k \<le> 4294967294)"

text \<open>Assigning to an existing own property keeps its place.\<close>

fun replace_prop :: "obj \<Rightarrow> string \<Rightarrow> jsval \<Rightarrow> obj" where
  "replace_prop [] k v = []"
| "replace_prop ((k', v') # ps) k v =
     (if k' = k then (k, v) # ps else (k', v') # replace_prop ps k v)"

text \<open>A new array index goes after the smaller indices and before everything else.\<close>

fun insert_index :: "string \<Rightarrow> jsval \<Rightarrow> obj \<Rightarrow> obj" where
  "insert_index k v [] = [(k, v)]"
| "insert_index k v ((k', v') # ps) =
     (if is_array_index k' \<and> decimal_value k' < decimal_value k
      then (k', v') # insert_index k v ps
      else (k, v) # (k', v') # ps)"

text \<open>
  The assignment \<^verbatim>\<open>ob[k] = v\<close>. A new key that is no array index is appended. Without an
  own property of that name, \<^verbatim>\<open>__proto__\<close> is the accessor of \<^verbatim>\<open>Object.prototype\<close>, whose
  setter ignores a value that is neither an object nor \<^verbatim>\<open>null\<close>: the object stays as it is.
\<close>

definition set_prop :: "obj \<Rightarrow> string \<Rightarrow> jsval \<Rightarrow> obj" where
  "set_prop ob k v =
     (if k \<in> set (map fst ob) then replace_prop ob k v
      else if k = ''__proto__'' then ob
      else if is_array_index k then insert_index k v ob
      else ob @ [(k, v)])"

text \<open>The keys for which assignment order is enumeration order.\<close>

definition plain_key :: "string \<Rightarrow> bool" where
  "plain_key k = (\<not> is_array_index k \<and> k \<noteq> ''__proto__'')"

text \<open>\<^verbatim>\<open>Array.prototype.join\<close> on an array of strings.\<close>

fun join :: "string \<Rightarrow> string list \<Rightarrow> string" where
  "join sep [] = []"
| "join sep [x] = x"
| "join sep (x # y # ys) = x @ sep @ join sep (y # ys)"

section \<open>The entropy source\<close>

text \<open>
  What Node.js throws where the installer's calls can fail: \<^verbatim>\<open>ERR_OUT_OF_RANGE\<close> (a
  \<^verbatim>\<open>RangeError\<close>) and \<^verbatim>\<open>ERR_STRING_TOO_LONG\<close>.
\<close>

datatype error = ERR_OUT_OF_RANGE | ERR_STRING_TOO_LONG

text \<open>
  The largest size \<^verbatim>\<open>crypto.randomBytes\<close> accepts is \<open>2\<^sup>3\<^sup>1 - 1\<close>; the longest string of a
  64-bit Node.js, \<^verbatim>\<open>buffer.constants.MAX_STRING_LENGTH\<close>, has \<open>2\<^sup>2\<^sup>9 - 24\<close> characters.
\<close>

definition kMaxPossibleLength :: nat where
  "kMaxPossibleLength = 2147483647"

definition MAX_STRING_LENGTH :: nat where
  "MAX_STRING_LENGTH = 536870888"

text \<open>
  \<^verbatim>\<open>crypto.randomBytes(n)\<close> reads the next \<open>n\<close> bytes of the system's entropy source, or
  throws when \<open>n\<close> is above the largest size. The source is the infinite sequence of the
  bytes it will deliver; a read returns the first \<open>n\<close> and the sequence that remains. The
  size is a non-negative integer.
\<close>

type_synonym byte = "8 word"
type_synonym rng = "nat \<Rightarrow> byte"

definition randomBytes :: "nat \<Rightarrow> rng \<Rightarrow> error + byte list \<times> rng" where
  "randomBytes n r =
     (if kMaxPossibleLength < n then Inl ERR_OUT_OF_RANGE
      else Inr (map r [0..<n], \<lambda>i. r (i + n)))"

text \<open>
  \<^verbatim>\<open>Buffer.prototype.toString('hex')\<close>: two lower-case digits for each byte, or
  \<^verbatim>\<open>ERR_STRING_TOO_LONG\<close> when that is more than a string can hold.
\<close>

definition hex_byte :: "byte \<Rightarrow> string" where
  "hex_byte b = [digit_char (unat b div 16), digit_char (unat b mod 16)]"

definition hex_digits :: "byte list \<Rightarrow> string" where
  "hex_digits bs = concat (map hex_byte bs)"

definition toString_hex :: "byte list \<Rightarrow> error + string" where
  "toString_hex bs =
     (if MAX_STRING_LENGTH < 2 * length bs then Inl ERR_STRING_TOO_LONG
      else Inr (hex_digits bs))"

definition is_hex_digit :: "char \<Rightarrow> bool" where
  "is_hex_digit c = (c \<in> set ''0123456789abcdef'')"

section \<open>Constants of the installer\<close>

definition APP_NAME_PREFIX :: string where
  "APP_NAME_PREFIX = ''AI-Coding-Assistant''"

definition DEFAULT_PORT :: int where
  "DEFAULT_PORT = 3000"

text \<open>
  \<^verbatim>\<open>ENV_FILE_PATH\<close> and \<^verbatim>\<open>MANIFEST_FILE_PATH\<close> are \<^verbatim>\<open>path.join(process.cwd(), name)\<close>:
  files of the working directory, which the model addresses by their names.
\<close>

definition ENV_FILE_PATH :: string where
  "ENV_FILE_PATH = ''.env''"

definition MANIFEST_FILE_PATH :: string where
  "MANIFEST_FILE_PATH = ''github-app-manifest.json''"

section \<open>Secrets and the manifest\<close>

text \<open>
  \<^verbatim>\<open>
  function generateRandomSecret(length = 32) {
    return crypto.randomBytes(length).toString('hex');
  }
  \<close>
  An exception of either call is the exception of the function.
\<close>

definition generateRandomSecret :: "nat \<Rightarrow> rng \<Rightarrow> error + string \<times> rng" where
  "generateRandomSecret len r =
     (case randomBytes len r of
        Inl e \<Rightarrow> Inl e
      | Inr (bs, r') \<Rightarrow>
          (case toString_hex bs of
             Inl e \<Rightarrow> Inl e
           | Inr s \<Rightarrow> Inr (s, r')))"

record hook_attributes =
  hook_url :: jsval
  hook_active :: bool
  hook_secret :: string

record permissions =
  issues :: string
  pull_requests :: string
  contents :: string
  metadata :: string

record manifest =
  name :: string
  url :: jsval
  hook_attributes :: hook_attributes
  redirect_url :: jsval
  public :: bool
  default_permissions :: permissions
  default_events :: "string list"
  description :: string

text \<open>
  \<^verbatim>\<open>generateGitHubAppManifest(config)\<close>. The webhook secret is drawn first; the four bytes
  of the name are drawn only when \<^verbatim>\<open>config.appNameSuffix\<close> is falsy, since \<^verbatim>\<open>||\<close> does not
  evaluate its right operand otherwise.
\<close>

definition generateGitHubAppManifest :: "obj \<Rightarrow> rng \<Rightarrow> error + (manifest \<times> string) \<times> rng" where
  "generateGitHubAppManifest config r =
     (case generateRandomSecret 16 r of
        Inl e \<Rightarrow> Inl e
      | Inr (webhookSecret, r1) \<Rightarrow>
          (case (if truthy (get_prop config ''appNameSuffix'')
                 then Inr (template (get_prop config ''appNameSuffix''), r1)
                 else (case randomBytes 4 r1 of
                         Inl e \<Rightarrow> Inl e
                       | Inr (bs, r') \<Rightarrow>
                           (case toString_hex bs of
                              Inl e \<Rightarrow> Inl e
                            | Inr h \<Rightarrow> Inr (h, r')))) of
             Inl e \<Rightarrow> Inl e
           | Inr (suffix, r2) \<Rightarrow>
               Inr ((\<lparr> name = APP_NAME_PREFIX @ ''-'' @ suffix,
                       url = js_or (get_prop config ''appUrl'')
                               (JStr ''https://github.com/your-username/ai-coding-assistant''),
                       hook_attributes =
                         \<lparr> hook_url = get_prop config ''webhookUrl'', hook_active = True,
                           hook_secret = webhookSecret \<rparr>,
                       redirect_url =
                         js_or (get_prop config ''redirectUrl'') (get_prop config ''webhookUrl''),
                       public = False,
                       default_permissions =
                         \<lparr> issues = ''write'', pull_requests = ''write'', contents = ''write'',
                           metadata = ''read'' \<rparr>,
                       default_events =
                         [''issues'', ''issue_comment'', ''pull_request'', ''pull_request_review'',
                          ''pull_request_review_comment''],
                       description = ''AI-powered assistant that automates software development workflow from GitHub issue to implementation.'' \<rparr>,
                     webhookSecret), r2)))"

text \<open>
  \<^verbatim>\<open>
  function getWebhookUrl(config) {
    const baseUrl = config.baseUrl || config.host || 'http://localhost';
    const port = config.port || DEFAULT_PORT;
    return `${baseUrl}:${port}/api/webhook`;
  }
  \<close>
\<close>

definition getWebhookUrl :: "obj \<Rightarrow> string" where
  "getWebhookUrl config =
     (let baseUrl = js_or (js_or (get_prop config ''baseUrl'') (get_prop config ''host''))
                      (JStr ''http://localhost'');
          port = js_or (get_prop config ''port'') (JNum DEFAULT_PORT)
      in template baseUrl @ '':'' @ template port @ ''/api/webhook'')"

section \<open>Files of the working directory\<close>

text \<open>
  A file holds text. The manifest file holds \<^verbatim>\<open>JSON.stringify(manifest, null, 2)\<close>, kept
  as the manifest it serialises; the container files and the installation guide are fixed
  texts, kept by name.
\<close>

datatype content = Text string | Json manifest | DockerComposeText | DockerfileText | InstallGuideText

type_synonym filesystem = "string \<rightharpoonup> content"

text \<open>\<^verbatim>\<open>fs.writeFileSync(path, data)\<close> creates the file or replaces all of its content.\<close>

definition writeFileSync :: "string \<Rightarrow> content \<Rightarrow> filesystem \<Rightarrow> filesystem" where
  "writeFileSync path data fs = fs(path \<mapsto> data)"

text \<open>
  \<^verbatim>\<open>
  const envContent = Object.entries(config)
    .map(([key, value]) => `${key}=${value}`)
    .join('\n');
  \<close>
\<close>

definition envContent :: "obj \<Rightarrow> string" where
  "envContent config = join ''\<newline>'' (map (\<lambda>(key, value). key @ ''='' @ template value) config)"

definition saveEnvironmentVariables :: "obj \<Rightarrow> filesystem \<Rightarrow> filesystem" where
  "saveEnvironmentVariables config fs = writeFileSync ENV_FILE_PATH (Text (envContent config)) fs"

definition saveManifest :: "manifest \<Rightarrow> filesystem \<Rightarrow> filesystem" where
  "saveManifest m fs = writeFileSync MANIFEST_FILE_PATH (Json m) fs"

section \<open>The callback listener\<close>

record callback_result =
  code :: jsval
  installationId :: jsval

text \<open>A promise is pending or settled; \<^verbatim>\<open>resolve\<close> on a settled promise does nothing.\<close>

datatype 'a promise = Pending | Resolved 'a

definition resolve :: "'a \<Rightarrow> 'a promise \<Rightarrow> 'a promise" where
  "resolve v p = (case p of Pending \<Rightarrow> Resolved v | Resolved w \<Rightarrow> Resolved w)"

text \<open>A request that Express routes to \<^verbatim>\<open>GET /github/callback\<close>, with its parsed query.\<close>

record request =
  query :: obj

record response =
  status :: nat
  body :: string

text \<open>
  The state \<^verbatim>\<open>startLocalServer\<close> sets up: the server of \<^verbatim>\<open>app.listen(port)\<close>, bound to the
  port while it listens, the promise handed to the caller, and the responses sent so far.
\<close>

record listener =
  bound_port :: jsval
  listening :: bool
  result :: "callback_result promise"
  sent :: "response list"

text \<open>The page of \<^verbatim>\<open>res.send\<close>, a template literal with two interpolations.\<close>

definition page :: "jsval \<Rightarrow> jsval \<Rightarrow> string" where
  \<open>page installation_id code' =
     ''\<newline>        <html>\<newline>          <body style="font-family: Arial, sans-serif; max-width: 600px; margin: 0 auto; padding: 20px;">\<newline>            <h2>GitHub App Successfully Created!</h2>\<newline>            <p>You can now close this window and return to the installer.</p>\<newline>            <div>\<newline>              <strong>Installation ID:</strong> ''
     @ template installation_id
     @ ''<br>\<newline>              <strong>Code:</strong> ''
     @ template code'
     @ ''\<newline>            </div>\<newline>          </body>\<newline>        </html>\<newline>      ''\<close>

text \<open>
  The route handler: it reads the two query values, sends the page (\<^verbatim>\<open>res.send\<close> answers
  with status 200) and resolves the promise.
\<close>

definition callback_handler :: "request \<Rightarrow> listener \<Rightarrow> listener" where
  "callback_handler req l =
     (let code' = get_prop (query req) ''code'';
          installation_id = get_prop (query req) ''installation_id''
      in l\<lparr> sent := sent l @ [\<lparr> status = 200, body = page installation_id code' \<rparr>],
            result := resolve \<lparr> code = code', installationId = installation_id \<rparr> (result l) \<rparr>)"

text \<open>
  \<^verbatim>\<open>startLocalServer(port)\<close>: the route is registered and the server listens. The server
  object is the return value of the promise's executor, which \<^verbatim>\<open>new Promise\<close> discards; the
  caller receives the promise only. The port is taken to be free and one that
  \<^verbatim>\<open>app.listen\<close> accepts.
\<close>

definition startLocalServer :: "jsval \<Rightarrow> listener" where
  "startLocalServer port = \<lparr> bound_port = port, listening = True, result = Pending, sent = [] \<rparr>"

text \<open>A listening server runs the handler on each request to the route, in order of arrival.\<close>

definition deliver :: "listener \<Rightarrow> request \<Rightarrow> listener" where
  "deliver l req = (if listening l then callback_handler req l else l)"

definition serve :: "listener \<Rightarrow> request list \<Rightarrow> listener" where
  "serve l reqs = foldl deliver l reqs"
section \<open>The installation flow\<close>

text \<open>
  What the run meets outside itself: the operator's validated answers to the prompts and the
  requests that reach the callback route. Prompt texts, console output and the validation
  loops of the prompts are left out.
\<close>

datatype install_method = Interactive | Manifest | Docker

datatype auth_method = App | Pat

record script =
  installMethod :: install_method
  answers :: obj
  authMethod :: auth_method
  tokenAnswers :: obj
  callbacks :: "request list"

text \<open>
  What the run changes: the working directory, the entropy source, the callback listener
  (none until one is started) and the manifests of the registration pages opened in the
  browser.
\<close>

record world =
  files :: filesystem
  entropy :: rng
  server :: "listener option"
  browser :: "manifest list"

text \<open>
  How a run ends: it returns; it throws, which the caller of \<^verbatim>\<open>runInstallation\<close> reports before
  \<^verbatim>\<open>process.exit(1)\<close>; or it waits forever at an \<^verbatim>\<open>await\<close> whose promise stays pending.
\<close>

datatype 'a outcome = Done 'a | Thrown error | Waiting

text \<open>
  The personal-token branch of the interactive setup: the token is recorded and a webhook
  secret is generated on its own.
\<close>

definition pat_branch :: "script \<Rightarrow> obj \<Rightarrow> world \<Rightarrow> (obj \<times> world) outcome" where
  "pat_branch sc config w =
     (let config1 = set_prop config ''GITHUB_TOKEN'' (get_prop (tokenAnswers sc) ''GITHUB_TOKEN'')
      in case generateRandomSecret 16 (entropy w) of
           Inl e \<Rightarrow> Thrown e
         | Inr (secret, r) \<Rightarrow>
             Done (set_prop config1 ''WEBHOOK_SECRET'' (JStr secret), w\<lparr> entropy := r \<rparr>))"

text \<open>
  The app-registration branch: one call builds the manifest, which is saved and opened in
  the browser; the listener is started and awaited. \<^verbatim>\<open>await callbackServer\<close> continues only
  once the promise is resolved. Nothing in the branch, or after it, closes the server.
\<close>

definition app_branch :: "script \<Rightarrow> obj \<Rightarrow> world \<Rightarrow> (obj \<times> world) outcome" where
  "app_branch sc config w =
     (case generateGitHubAppManifest config (entropy w) of
        Inl e \<Rightarrow> Thrown e
      | Inr ((m, webhookSecret), r) \<Rightarrow>
          (let w1 = w\<lparr> entropy := r, files := saveManifest m (files w) \<rparr>;
               config1 = set_prop config ''WEBHOOK_SECRET'' (JStr webhookSecret);
               callbackServer =
                 startLocalServer (js_or (get_prop config1 ''port'') (JNum DEFAULT_PORT));
               w2 = w1\<lparr> browser := browser w1 @ [m] \<rparr>;
               l = serve callbackServer (callbacks sc)
           in case result l of
                Pending \<Rightarrow> Waiting
              | Resolved cb \<Rightarrow>
                  (let config2 = set_prop config1 ''GITHUB_APP_ID''
                                   (JStr ''GET_FROM_GITHUB_APP_SETTINGS'');
                       config3 = set_prop config2 ''GITHUB_APP_INSTALLATION_ID''
                                   (installationId cb);
                       config4 = set_prop config3 ''GITHUB_PRIVATE_KEY''
                                   (JStr ''DOWNLOAD_FROM_GITHUB_APP_SETTINGS'')
                   in Done (config4, w2\<lparr> server := Some l \<rparr>))))"

definition interactive_setup :: "script \<Rightarrow> world \<Rightarrow> (obj \<times> world) outcome" where
  "interactive_setup sc w =
     (let config = answers sc;
          config1 = set_prop config ''webhookUrl'' (JStr (getWebhookUrl config))
      in case (case authMethod sc of Pat \<Rightarrow> pat_branch sc config1 w
                                   | App \<Rightarrow> app_branch sc config1 w) of
           Done (config2, w') \<Rightarrow>
             Done (config2, w'\<lparr> files := saveEnvironmentVariables config2 (files w') \<rparr>)
         | Thrown e \<Rightarrow> Thrown e
         | Waiting \<Rightarrow> Waiting)"

definition manifest_flow :: "script \<Rightarrow> world \<Rightarrow> (obj \<times> world) outcome" where
  "manifest_flow sc w =
     (let config = answers sc
      in case generateGitHubAppManifest config (entropy w) of
           Inl e \<Rightarrow> Thrown e
         | Inr ((m, webhookSecret), r) \<Rightarrow>
             (let w1 = w\<lparr> entropy := r, files := saveManifest m (files w) \<rparr>;
                  config1 = set_prop config ''WEBHOOK_SECRET'' (JStr webhookSecret);
                  config2 = set_prop config1 ''CLAUDE_API_KEY''
                              (JStr ''ENTER_YOUR_CLAUDE_API_KEY_HERE'');
                  config3 = set_prop config2 ''GITHUB_APP_ID''
                              (JStr ''GET_FROM_GITHUB_APP_SETTINGS'');
                  config4 = set_prop config3 ''GITHUB_APP_INSTALLATION_ID''
                              (JStr ''GET_FROM_GITHUB_APP_SETTINGS'');
                  config5 = set_prop config4 ''GITHUB_PRIVATE_KEY''
                              (JStr ''DOWNLOAD_FROM_GITHUB_APP_SETTINGS'')
              in Done (config5, w1\<lparr> files := saveEnvironmentVariables config5 (files w1) \<rparr>)))"

definition docker_flow :: "world \<Rightarrow> (obj \<times> world) outcome" where
  "docker_flow w =
     Done ([], w\<lparr> files := writeFileSync ''Dockerfile'' DockerfileText
                             (writeFileSync ''docker-compose.yml'' DockerComposeText (files w)) \<rparr>)"

text \<open>
  \<^verbatim>\<open>runInstallation\<close>: the chosen method, then the installation guide. A run that returns
  leaves the final \<^verbatim>\<open>config\<close> object and the world.
\<close>

definition runInstallation :: "script \<Rightarrow> world \<Rightarrow> (obj \<times> world) outcome" where
  "runInstallation sc w =
     (case (case installMethod sc of
              Interactive \<Rightarrow> interactive_setup sc w
            | Manifest \<Rightarrow> manifest_flow sc w
            | Docker \<Rightarrow> docker_flow w) of
        Done (config, w') \<Rightarrow>
          Done (config, w'\<lparr> files := writeFileSync ''INSTALL.md'' InstallGuideText (files w') \<rparr>)
      | Thrown e \<Rightarrow> Thrown e
      | Waiting \<Rightarrow> Waiting)"

section \<open>A sample run\<close>

text \<open>
  The end-to-end scenario: suffix left empty, host \<^verbatim>\<open>http://localhost\<close>, port 3000, a new
  GitHub App, and the redirect \<^verbatim>\<open>/github/callback?code=abc123&installation_id=999\<close>.
\<close>

definition sample_entropy :: rng where
  "sample_entropy = (\<lambda>i. of_nat (i * 37 + 5))"

definition sample_request :: request where
  "sample_request = \<lparr> query = [(''code'', JStr ''abc123''), (''installation_id'', JStr ''999'')] \<rparr>"

definition sample_script :: script where
  "sample_script =
     \<lparr> installMethod = Interactive,
       answers = [(''appNameSuffix'', JStr []), (''host'', JStr ''http://localhost''),
                  (''port'', JStr ''3000''), (''CLAUDE_API_KEY'', JStr ''sk-0123456789abcdefghij'')],
       authMethod = App,
       tokenAnswers = [],
       callbacks = [sample_request] \<rparr>"

definition sample_world :: world where
  "sample_world = \<lparr> files = Map.empty, entropy = sample_entropy, server = None, browser = [] \<rparr>"

section \<open>Auxiliary facts\<close>

subsection \<open>Hexadecimal rendering and the limits of the two calls\<close>

lemma digit_chars_hex: "list_all (\<lambda>n. is_hex_digit (digit_char n)) [0..<16]"
  by code_simp

lemma digit_char_hex: "n < 16 \<Longrightarrow> is_hex_digit (digit_char n)"
  using digit_chars_hex by (simp add: list_all_iff)

lemma hex_byte_digits: "c \<in> set (hex_byte b) \<Longrightarrow> is_hex_digit c"
proof -
  assume c: "c \<in> set (hex_byte b)"
  have "unat b < 256" using unsigned_less [of b] by simp
  then have "unat b div 16 < 16" and "unat b mod 16 < 16" by auto
  with c show ?thesis by (auto simp: hex_byte_def digit_char_hex)
qed

lemma length_hex_digits: "length (hex_digits bs) = 2 * length bs"
  by (induction bs) (simp_all add: hex_digits_def hex_byte_def)

lemma hex_digits_digits: "c \<in> set (hex_digits bs) \<Longrightarrow> is_hex_digit c"
  by (auto simp: hex_digits_def hex_byte_digits)

lemma randomBytes_Inr:
  "n \<le> 2147483647 \<Longrightarrow> randomBytes n r = Inr (map r [0..<n], \<lambda>i. r (i + n))"
  by (simp add: randomBytes_def kMaxPossibleLength_def)

lemma toString_hex_Inr: "length bs \<le> 268435444 \<Longrightarrow> toString_hex bs = Inr (hex_digits bs)"
  by (simp add: toString_hex_def MAX_STRING_LENGTH_def)

lemma generateRandomSecret_Inr:
  "n \<le> 268435444 \<Longrightarrow>
     generateRandomSecret n r = Inr (hex_digits (map r [0..<n]), \<lambda>i. r (i + n))"
  by (simp add: generateRandomSecret_def randomBytes_Inr toString_hex_Inr)

lemma generateRandomSecret_Inl:
  "268435444 < n \<Longrightarrow>
     generateRandomSecret n r =
       Inl (if 2147483647 < n then ERR_OUT_OF_RANGE else ERR_STRING_TOO_LONG)"
  by (simp add: generateRandomSecret_def randomBytes_def toString_hex_def
      kMaxPossibleLength_def MAX_STRING_LENGTH_def)

lemma map_shift: "map (\<lambda>i. r (i + n)) [0..<k] = map r [n..<n + k]"
  by (induction k) (simp_all add: add.commute)

subsection \<open>Objects\<close>

lemma not_array_index: "k \<noteq> [] \<Longrightarrow> \<not> is_digit (hd k) \<Longrightarrow> \<not> is_array_index k"
  by (cases k) (simp_all add: is_array_index_def)

lemma set_prop_plain:
  "plain_key k \<Longrightarrow>
     set_prop ob k v = (if k \<in> set (map fst ob) then replace_prop ob k v else ob @ [(k, v)])"
  by (simp add: set_prop_def plain_key_def)

lemma set_prop_fresh: "plain_key k \<Longrightarrow> k \<notin> fst ` set ob \<Longrightarrow> set_prop ob k v = ob @ [(k, v)]"
  by (simp add: set_prop_plain)

lemma map_of_replace_prop:
  "k \<in> fst ` set ob \<Longrightarrow>
     map_of (replace_prop ob k v) k' = (if k' = k then Some v else map_of ob k')"
  by (induction ob k v rule: replace_prop.induct) (force split: if_splits)+

lemma get_prop_replace_prop:
  "k \<in> fst ` set ob \<Longrightarrow>
     get_prop (replace_prop ob k v) k' = (if k' = k then v else get_prop ob k')"
  by (simp add: get_prop_def map_of_replace_prop)

lemma get_prop_append_fresh:
  assumes "k \<notin> fst ` set ob"
  shows "get_prop (ob @ [(k, v)]) k' = (if k' = k then v else get_prop ob k')"
proof -
  from assms have "map_of ob k = None" by (simp add: map_of_eq_None_iff)
  then show ?thesis
    by (auto simp: get_prop_def map_add_def split: option.splits)
qed

lemma get_prop_set_prop:
  "plain_key k \<Longrightarrow> get_prop (set_prop ob k v) k' = (if k' = k then v else get_prop ob k')"
  by (simp add: set_prop_plain get_prop_replace_prop get_prop_append_fresh)

lemma replace_prop_mem: "k \<in> fst ` set ob \<Longrightarrow> (k, v) \<in> set (replace_prop ob k v)"
  by (induction ob k v rule: replace_prop.induct) auto

lemma replace_prop_keeps: "(k, v) \<in> set ob \<Longrightarrow> k \<noteq> k' \<Longrightarrow> (k, v) \<in> set (replace_prop ob k' v')"
  by (induction ob k' v' rule: replace_prop.induct) auto

lemma set_prop_mem: "plain_key k \<Longrightarrow> (k, v) \<in> set (set_prop ob k v)"
  by (simp add: set_prop_plain replace_prop_mem)

lemma set_prop_keeps:
  "plain_key k' \<Longrightarrow> (k, v) \<in> set ob \<Longrightarrow> k \<noteq> k' \<Longrightarrow> (k, v) \<in> set (set_prop ob k' v')"
  by (simp add: set_prop_plain replace_prop_keeps)

text \<open>The property names the installer assigns are plain.\<close>

lemma plain_installer_keys:
  "plain_key ''webhookUrl''" "plain_key ''GITHUB_TOKEN''" "plain_key ''WEBHOOK_SECRET''"
  "plain_key ''CLAUDE_API_KEY''" "plain_key ''GITHUB_APP_ID''"
  "plain_key ''GITHUB_APP_INSTALLATION_ID''" "plain_key ''GITHUB_PRIVATE_KEY''"
  by (simp_all add: plain_key_def not_array_index is_digit_def)

text \<open>Assigning fresh plain keys one after the other lists them in that order.\<close>

lemma assign_in_order:
  "distinct (map fst kvs) \<Longrightarrow> list_all plain_key (map fst kvs) \<Longrightarrow>
     foldl (\<lambda>ob (k, v). set_prop ob k v) [] kvs = kvs"
proof (induction kvs rule: rev_induct)
  case Nil
  then show ?case by simp
next
  case (snoc kv kvs)
  obtain k v where kv: "kv = (k, v)" by (cases kv)
  from snoc.prems have "distinct (map fst kvs)" and "list_all plain_key (map fst kvs)"
    and "plain_key k" and "k \<notin> fst ` set kvs"
    by (auto simp: kv)
  with snoc.IH show ?case
    by (simp add: kv set_prop_fresh)
qed

subsection \<open>Lines of a joined text\<close>

lemma join_Cons: "join sep (x # xs) = (if xs = [] then x else x @ sep @ join sep xs)"
  by (cases xs) simp_all

lemma join_line:
  "x \<in> set xs \<Longrightarrow>
     \<exists>pre post. join sep xs = pre @ x @ post
       \<and> (pre = [] \<or> (\<exists>p. pre = p @ sep)) \<and> (post = [] \<or> (\<exists>p. post = sep @ p))"
proof (induction xs)
  case Nil
  then show ?case by simp
next
  case (Cons y ys)
  show ?case
  proof (cases "x = y")
    case True
    have "join sep (y # ys) = [] @ x @ (if ys = [] then [] else sep @ join sep ys)"
      by (simp add: join_Cons True)
    then show ?thesis by (metis (full_types))
  next
    case False
    with Cons.prems have mem: "x \<in> set ys" and ne: "ys \<noteq> []" by auto
    from Cons.IH [OF mem] obtain pre post where
      j: "join sep ys = pre @ x @ post"
      and pre: "pre = [] \<or> (\<exists>p. pre = p @ sep)"
      and post: "post = [] \<or> (\<exists>p. post = sep @ p)"
      by blast
    have eq: "join sep (y # ys) = (y @ sep @ pre) @ x @ post"
      using ne by (simp add: join_Cons j)
    from pre have "\<exists>p. y @ sep @ pre = p @ sep"
    proof
      assume "pre = []"
      then show ?thesis by simp
    next
      assume "\<exists>p. pre = p @ sep"
      then obtain p where "pre = p @ sep" ..
      then have "y @ sep @ pre = (y @ sep @ p) @ sep" by simp
      then show ?thesis ..
    qed
    with eq post show ?thesis by blast
  qed
qed

subsection \<open>The manifest, with the bytes it draws\<close>

text \<open>
  The call never throws. The secret is bytes 0 to 15 of the source; a random name suffix is
  bytes 16 to 19.
\<close>

lemma manifest_Inr:
  "generateGitHubAppManifest config r =
     Inr ((\<lparr> name = APP_NAME_PREFIX @ ''-'' @
                 (if truthy (get_prop config ''appNameSuffix'')
                  then template (get_prop config ''appNameSuffix'')
                  else hex_digits (map r [16..<20])),
              url = js_or (get_prop config ''appUrl'')
                      (JStr ''https://github.com/your-username/ai-coding-assistant''),
              hook_attributes =
                \<lparr> hook_url = get_prop config ''webhookUrl'', hook_active = True,
                  hook_secret = hex_digits (map r [0..<16]) \<rparr>,
              redirect_url = js_or (get_prop config ''redirectUrl'') (get_prop config ''webhookUrl''),
              public = False,
              default_permissions =
                \<lparr> issues = ''write'', pull_requests = ''write'', contents = ''write'',
                  metadata = ''read'' \<rparr>,
              default_events =
                [''issues'', ''issue_comment'', ''pull_request'', ''pull_request_review'',
                 ''pull_request_review_comment''],
              description = ''AI-powered assistant that automates software development workflow from GitHub issue to implementation.'' \<rparr>,
           hex_digits (map r [0..<16])),
          if truthy (get_prop config ''appNameSuffix'')
          then (\<lambda>i. r (i + 16)) else (\<lambda>i. r (i + 20)))"
  using map_shift [of r 16 4]
  by (simp add: generateGitHubAppManifest_def generateRandomSecret_Inr randomBytes_Inr
      toString_hex_Inr add.assoc)

subsection \<open>The promise and the listener\<close>

lemma resolve_Resolved [simp]: "resolve v (Resolved w) = Resolved w"
  by (simp add: resolve_def)

lemma resolve_Pending [simp]: "resolve v Pending = Resolved v"
  by (simp add: resolve_def)

lemma resolve_not_Pending: "resolve v p \<noteq> Pending"
  by (cases p) simp_all

lemma listening_deliver: "listening (deliver l req) = listening l"
  by (simp add: deliver_def callback_handler_def Let_def)

lemma listening_serve: "listening (serve l reqs) = listening l"
  unfolding serve_def by (induction reqs arbitrary: l) (simp_all add: listening_deliver)

lemma bound_port_deliver: "bound_port (deliver l req) = bound_port l"
  by (simp add: deliver_def callback_handler_def Let_def)

lemma bound_port_serve: "bound_port (serve l reqs) = bound_port l"
  unfolding serve_def by (induction reqs arbitrary: l) (simp_all add: bound_port_deliver)

lemma result_deliver_Resolved: "result l = Resolved cb \<Longrightarrow> result (deliver l req) = Resolved cb"
  by (simp add: deliver_def callback_handler_def Let_def)

lemma result_serve_Resolved: "result l = Resolved cb \<Longrightarrow> result (serve l reqs) = Resolved cb"
  unfolding serve_def by (induction reqs arbitrary: l) (simp_all add: result_deliver_Resolved)

lemma serve_Cons: "serve l (req # reqs) = serve (deliver l req) reqs"
  by (simp add: serve_def)

lemma serve_append: "serve l (reqs @ later) = serve (serve l reqs) later"
  by (simp add: serve_def)

lemma result_deliver_start:
  "result (deliver (startLocalServer port) req) =
     Resolved \<lparr> code = get_prop (query req) ''code'',
                installationId = get_prop (query req) ''installation_id'' \<rparr>"
  by (simp add: deliver_def callback_handler_def startLocalServer_def Let_def)

lemma result_serve_Cons:
  "result (serve (startLocalServer port) (req # later)) =
     Resolved \<lparr> code = get_prop (query req) ''code'',
                installationId = get_prop (query req) ''installation_id'' \<rparr>"
  by (simp add: serve_Cons result_serve_Resolved result_deliver_start)

subsection \<open>The app-registration branch\<close>

lemma app_branch_Cons:
  assumes "callbacks sc = req # later"
    and "generateGitHubAppManifest config (entropy w) = Inr ((m, secret), r')"
  shows "app_branch sc config w =
     Done (set_prop (set_prop (set_prop (set_prop config ''WEBHOOK_SECRET'' (JStr secret))
               ''GITHUB_APP_ID'' (JStr ''GET_FROM_GITHUB_APP_SETTINGS''))
               ''GITHUB_APP_INSTALLATION_ID'' (get_prop (query req) ''installation_id''))
               ''GITHUB_PRIVATE_KEY'' (JStr ''DOWNLOAD_FROM_GITHUB_APP_SETTINGS''),
           w\<lparr> entropy := r', files := saveManifest m (files w), browser := browser w @ [m],
              server := Some (serve (startLocalServer
                 (js_or (get_prop (set_prop config ''WEBHOOK_SECRET'' (JStr secret)) ''port'')
                    (JNum DEFAULT_PORT))) (req # later)) \<rparr>)"
  using assms by (simp add: app_branch_def Let_def result_serve_Cons)

text \<open>With no callback the promise stays pending and the branch waits forever.\<close>

lemma app_branch_Nil: "callbacks sc = [] \<Longrightarrow> app_branch sc config w = Waiting"
  by (simp add: app_branch_def manifest_Inr Let_def serve_def startLocalServer_def)

lemma runInstallation_app:
  assumes "installMethod sc = Interactive" and "authMethod sc = App"
    and "callbacks sc = req # later"
    and "generateGitHubAppManifest
           (set_prop (answers sc) ''webhookUrl'' (JStr (getWebhookUrl (answers sc)))) (entropy w)
         = Inr ((m, secret), r')"
    and "final = set_prop (set_prop (set_prop (set_prop
               (set_prop (answers sc) ''webhookUrl'' (JStr (getWebhookUrl (answers sc))))
               ''WEBHOOK_SECRET'' (JStr secret))
               ''GITHUB_APP_ID'' (JStr ''GET_FROM_GITHUB_APP_SETTINGS''))
               ''GITHUB_APP_INSTALLATION_ID'' (get_prop (query req) ''installation_id''))
               ''GITHUB_PRIVATE_KEY'' (JStr ''DOWNLOAD_FROM_GITHUB_APP_SETTINGS'')"
  shows "runInstallation sc w =
     Done (final,
           w\<lparr> entropy := r',
              files := writeFileSync ''INSTALL.md'' InstallGuideText
                         (saveEnvironmentVariables final (saveManifest m (files w))),
              browser := browser w @ [m],
              server := Some (serve (startLocalServer
                 (js_or (get_prop (answers sc) ''port'') (JNum DEFAULT_PORT))) (req # later)) \<rparr>)"
  using assms
  by (simp add: runInstallation_def interactive_setup_def Let_def app_branch_Cons
      get_prop_set_prop plain_installer_keys)

section \<open>Claims\<close>

text \<open>
  C9. As stated, \<^verbatim>\<open>generateRandomSecret(lengthBytes)\<close> would return a hexadecimal string of
  length \<open>2 \<times> lengthBytes\<close> for every positive \<open>lengthBytes\<close>. Node.js sets a limit:
  \<^verbatim>\<open>crypto.randomBytes\<close> rejects a size above \<open>2\<^sup>3\<^sup>1 - 1\<close>, and from 268435445 bytes on the
  hexadecimal string would be longer than a string can be; the counterexample has both.
  Amended: for every \<open>lengthBytes\<close> from 1 to 268435444 the function returns a string of
  exactly \<open>2 \<times> lengthBytes\<close> hexadecimal digits; for every larger one it throws.
\<close>

theorem generateRandomSecret_hex_length:
  "(0 < lengthBytes \<and> lengthBytes \<le> 268435444 \<longrightarrow>
      (\<exists>s r'. generateRandomSecret lengthBytes r = Inr (s, r')
         \<and> length s = 2 * lengthBytes \<and> (\<forall>c \<in> set s. is_hex_digit c)))
   \<and> (268435444 < lengthBytes \<longrightarrow> (\<exists>e. generateRandomSecret lengthBytes r = Inl e))"
  by (simp add: generateRandomSecret_Inr generateRandomSecret_Inl length_hex_digits
      hex_digits_digits)

theorem generateRandomSecret_hex_length_witness:
  "(0::nat) < 3 \<and> (3::nat) \<le> 268435444
   \<and> (\<exists>r'. generateRandomSecret 3 sample_entropy = Inr (''052a4f'', r'))
   \<and> length ''052a4f'' = 2 * 3
   \<and> list_all is_hex_digit ''052a4f''
   \<and> (268435444::nat) < 268435445
   \<and> (\<exists>e. generateRandomSecret 268435445 sample_entropy = Inl e)"
proof -
  have v: "hex_digits (map sample_entropy [0..<3]) = ''052a4f''"
    by (simp add: hex_digits_def hex_byte_def digit_char_def sample_entropy_def upt_rec)
  have "(0::nat) < 3 \<and> (3::nat) \<le> 268435444"
    by simp
  with generateRandomSecret_hex_length [of 3 sample_entropy] obtain s r' where
    s: "generateRandomSecret 3 sample_entropy = Inr (s, r')"
    and l: "length s = 2 * 3" and d: "\<forall>c \<in> set s. is_hex_digit c"
    by blast
  from s v have "s = ''052a4f''"
    by (simp add: generateRandomSecret_Inr)
  with s l d have small:
    "(\<exists>r'. generateRandomSecret 3 sample_entropy = Inr (''052a4f'', r'))
     \<and> length ''052a4f'' = 2 * 3 \<and> list_all is_hex_digit ''052a4f''"
    unfolding list_all_iff by blast
  have "(268435444::nat) < 268435445"
    by simp
  with generateRandomSecret_hex_length [of 268435445 sample_entropy]
  have "\<exists>e. generateRandomSecret 268435445 sample_entropy = Inl e"
    by blast
  with small show ?thesis by simp
qed

theorem generateRandomSecret_limit_counterexample:
  "(0::nat) < 2147483648
   \<and> generateRandomSecret 2147483648 sample_entropy = Inl ERR_OUT_OF_RANGE
   \<and> (0::nat) < 268435445
   \<and> generateRandomSecret 268435445 sample_entropy = Inl ERR_STRING_TOO_LONG"
  by (simp add: generateRandomSecret_Inl)



text \<open>
  C10. If no explicit \<^verbatim>\<open>redirectUrl\<close> is supplied (it is absent or empty), the manifest's
  \<^verbatim>\<open>redirect_url\<close> equals the config's webhook URL, the same value placed in
  \<^verbatim>\<open>hook_attributes.url\<close>; an explicit \<^verbatim>\<open>redirectUrl\<close> is used verbatim.
\<close>

theorem manifest_redirect_url:
  "\<exists>m secret r'.
     generateGitHubAppManifest config r = Inr ((m, secret), r')
     \<and> (\<not> truthy (get_prop config ''redirectUrl'') \<longrightarrow>
          redirect_url m = get_prop config ''webhookUrl''
          \<and> redirect_url m = hook_url (hook_attributes m))
     \<and> (truthy (get_prop config ''redirectUrl'') \<longrightarrow>
          redirect_url m = get_prop config ''redirectUrl'')"
  by (simp add: manifest_Inr js_or_def)

theorem manifest_redirect_url_witness:
  "\<not> truthy (get_prop [(''webhookUrl'', JStr ''http://localhost:3000/api/webhook'')] ''redirectUrl'')
   \<and> (\<exists>m secret r'. generateGitHubAppManifest
          [(''webhookUrl'', JStr ''http://localhost:3000/api/webhook'')] sample_entropy
            = Inr ((m, secret), r')
        \<and> redirect_url m = JStr ''http://localhost:3000/api/webhook''
        \<and> hook_url (hook_attributes m) = JStr ''http://localhost:3000/api/webhook'')
   \<and> truthy (get_prop [(''webhookUrl'', JStr ''http://localhost:3000/api/webhook''),
                       (''redirectUrl'', JStr ''https://bot.example.com/done'')] ''redirectUrl'')
   \<and> (\<exists>m secret r'. generateGitHubAppManifest
          [(''webhookUrl'', JStr ''http://localhost:3000/api/webhook''),
           (''redirectUrl'', JStr ''https://bot.example.com/done'')] sample_entropy
            = Inr ((m, secret), r')
        \<and> redirect_url m = JStr ''https://bot.example.com/done'')"
proof -
  have g: "get_prop [(''webhookUrl'', JStr ''http://localhost:3000/api/webhook'')] ''redirectUrl''
             = JUndefined"
    "get_prop [(''webhookUrl'', JStr ''http://localhost:3000/api/webhook'')] ''webhookUrl''
             = JStr ''http://localhost:3000/api/webhook''"
    "get_prop [(''webhookUrl'', JStr ''http://localhost:3000/api/webhook''),
               (''redirectUrl'', JStr ''https://bot.example.com/done'')] ''redirectUrl''
             = JStr ''https://bot.example.com/done''"
    by (simp_all add: get_prop_def)
  from manifest_redirect_url
         [of "[(''webhookUrl'', JStr ''http://localhost:3000/api/webhook'')]" sample_entropy] g
  have 1: "\<exists>m secret r'. generateGitHubAppManifest
          [(''webhookUrl'', JStr ''http://localhost:3000/api/webhook'')] sample_entropy
            = Inr ((m, secret), r')
        \<and> redirect_url m = JStr ''http://localhost:3000/api/webhook''
        \<and> hook_url (hook_attributes m) = JStr ''http://localhost:3000/api/webhook''"
    by auto
  from manifest_redirect_url
         [of "[(''webhookUrl'', JStr ''http://localhost:3000/api/webhook''),
               (''redirectUrl'', JStr ''https://bot.example.com/done'')]" sample_entropy] g
  have 2: "\<exists>m secret r'. generateGitHubAppManifest
          [(''webhookUrl'', JStr ''http://localhost:3000/api/webhook''),
           (''redirectUrl'', JStr ''https://bot.example.com/done'')] sample_entropy
            = Inr ((m, secret), r')
        \<and> redirect_url m = JStr ''https://bot.example.com/done''"
    by auto
  from g 1 2 show ?thesis by simp
qed

text \<open>
  C6. As stated, for every config with a host and a port set the derived webhook URL would
  be \<^verbatim>\<open>{host}:{port}/api/webhook\<close>. The function first looks at \<^verbatim>\<open>config.baseUrl\<close>, which
  takes the place of the host when it is set: the counterexample has all three. Amended:
  for every config with no \<^verbatim>\<open>baseUrl\<close> (absent or empty), a non-empty host and a port that
  is set (not empty, not zero), the derived webhook URL is \<^verbatim>\<open>{host}:{port}/api/webhook\<close>;
  for host \<^verbatim>\<open>http://localhost\<close> and port 4000 it is
  \<^verbatim>\<open>http://localhost:4000/api/webhook\<close>.
\<close>

theorem getWebhookUrl_host_port:
  assumes "\<not> truthy (get_prop config ''baseUrl'')"
    and "truthy (get_prop config ''host'')"
    and "truthy (get_prop config ''port'')"
  shows "getWebhookUrl config =
           template (get_prop config ''host'') @ '':'' @ template (get_prop config ''port'')
             @ ''/api/webhook''"
  using assms by (simp add: getWebhookUrl_def js_or_def)

theorem getWebhookUrl_host_port_witness:
  "\<not> truthy (get_prop [(''host'', JStr ''http://localhost''), (''port'', JNum 4000)] ''baseUrl'')
   \<and> truthy (get_prop [(''host'', JStr ''http://localhost''), (''port'', JNum 4000)] ''host'')
   \<and> truthy (get_prop [(''host'', JStr ''http://localhost''), (''port'', JNum 4000)] ''port'')
   \<and> getWebhookUrl [(''host'', JStr ''http://localhost''), (''port'', JNum 4000)] =
       ''http://localhost:4000/api/webhook''"
  using getWebhookUrl_host_port [of "[(''host'', JStr ''http://localhost''), (''port'', JNum 4000)]"]
  by (simp add: get_prop_def digit_char_def)

theorem getWebhookUrl_baseUrl_counterexample:
  "truthy (get_prop [(''baseUrl'', JStr ''https://bot.example.com''),
                     (''host'', JStr ''http://localhost''), (''port'', JNum 4000)] ''host'')
   \<and> truthy (get_prop [(''baseUrl'', JStr ''https://bot.example.com''),
                     (''host'', JStr ''http://localhost''), (''port'', JNum 4000)] ''port'')
   \<and> get_prop [(''baseUrl'', JStr ''https://bot.example.com''),
               (''host'', JStr ''http://localhost''), (''port'', JNum 4000)] ''webhookUrl'' = JUndefined
   \<and> getWebhookUrl [(''baseUrl'', JStr ''https://bot.example.com''),
                    (''host'', JStr ''http://localhost''), (''port'', JNum 4000)]
       = ''https://bot.example.com:4000/api/webhook''
   \<and> getWebhookUrl [(''baseUrl'', JStr ''https://bot.example.com''),
                    (''host'', JStr ''http://localhost''), (''port'', JNum 4000)]
       \<noteq> ''http://localhost:4000/api/webhook''"
  by (simp add: getWebhookUrl_def get_prop_def js_or_def digit_char_def DEFAULT_PORT_def)

text \<open>
  C8. As stated, \<^verbatim>\<open>saveEnvironmentVariables\<close> would write the lines in the mapping's
  insertion order for every mapping. It writes them in the order of \<^verbatim>\<open>Object.entries\<close>,
  which lists integer-like keys first: the counterexample assigns \<^verbatim>\<open>A\<close> and then \<^verbatim>\<open>1\<close>, and
  the file starts with \<^verbatim>\<open>1=3\<close>. Amended: the file holds the \<^verbatim>\<open>KEY=value\<close> lines of the
  mapping's entries joined by newlines, in the order \<^verbatim>\<open>Object.entries\<close> enumerates them,
  which is insertion order for keys that are neither integer-like nor \<^verbatim>\<open>__proto__\<close>; the
  write replaces whatever the file held and changes no other file; called with \<^verbatim>\<open>{A:1}\<close>
  and then \<^verbatim>\<open>{A:2,B:3}\<close>, it leaves exactly the lines \<^verbatim>\<open>A=2\<close> and \<^verbatim>\<open>B=3\<close>.
\<close>

theorem saveEnvironmentVariables_replaces:
  "saveEnvironmentVariables config fs ENV_FILE_PATH =
     Some (Text (join ''\<newline>'' (map (\<lambda>(key, value). key @ ''='' @ template value) config)))
   \<and> saveEnvironmentVariables config fs ENV_FILE_PATH = saveEnvironmentVariables config fs' ENV_FILE_PATH
   \<and> (\<forall>p. p \<noteq> ENV_FILE_PATH \<longrightarrow> saveEnvironmentVariables config fs p = fs p)
   \<and> (plain_key k \<and> k \<notin> fst ` set config \<longrightarrow>
        saveEnvironmentVariables (set_prop config k v) fs ENV_FILE_PATH =
          Some (Text (join ''\<newline>''
            (map (\<lambda>(key, value). key @ ''='' @ template value) config @ [k @ ''='' @ template v]))))
   \<and> (distinct (map fst kvs) \<and> list_all plain_key (map fst kvs) \<longrightarrow>
        saveEnvironmentVariables (foldl (\<lambda>ob (key, value). set_prop ob key value) [] kvs) fs
          ENV_FILE_PATH =
          Some (Text (join ''\<newline>'' (map (\<lambda>(key, value). key @ ''='' @ template value) kvs))))
   \<and> saveEnvironmentVariables [(''A'', JNum 2), (''B'', JNum 3)]
        (saveEnvironmentVariables [(''A'', JNum 1)] fs) ENV_FILE_PATH =
      Some (Text ''A=2\<newline>B=3'')"
  by (simp add: saveEnvironmentVariables_def writeFileSync_def envContent_def digit_char_def
      set_prop_fresh assign_in_order)

theorem saveEnvironmentVariables_replaces_witness:
  "''INSTALL.md'' \<noteq> ENV_FILE_PATH
   \<and> saveEnvironmentVariables [(''A'', JNum 1)] Map.empty ENV_FILE_PATH = Some (Text ''A=1'')
   \<and> saveEnvironmentVariables [(''A'', JNum 2), (''B'', JNum 3)]
        (saveEnvironmentVariables [(''A'', JNum 1)] Map.empty) ''INSTALL.md'' = None
   \<and> plain_key ''B'' \<and> ''B'' \<notin> fst ` set [(''A'', JNum 2)]
   \<and> set_prop [(''A'', JNum 2)] ''B'' (JNum 3) = [(''A'', JNum 2), (''B'', JNum 3)]
   \<and> saveEnvironmentVariables (set_prop [(''A'', JNum 2)] ''B'' (JNum 3))
        (saveEnvironmentVariables [(''A'', JNum 1)] Map.empty) ENV_FILE_PATH =
      Some (Text ''A=2\<newline>B=3'')
   \<and> distinct (map fst [(''A'', JNum 2), (''B'', JNum 3)])
   \<and> list_all plain_key (map fst [(''A'', JNum 2), (''B'', JNum 3)])
   \<and> foldl (\<lambda>ob (key, value). set_prop ob key value) [] [(''A'', JNum 2), (''B'', JNum 3)]
       = [(''A'', JNum 2), (''B'', JNum 3)]"
proof -
  have p: "plain_key ''A''" "plain_key ''B''"
    by (simp_all add: plain_key_def not_array_index is_digit_def)
  from p saveEnvironmentVariables_replaces
    [of "[(''A'', JNum 2)]" "saveEnvironmentVariables [(''A'', JNum 1)] Map.empty" Map.empty
        "''B''" "JNum 3" "[(''A'', JNum 2), (''B'', JNum 3)]"]
  show ?thesis
    by (simp add: ENV_FILE_PATH_def saveEnvironmentVariables_def writeFileSync_def envContent_def
        digit_char_def set_prop_plain)
qed

theorem saveEnvironmentVariables_order_counterexample:
  "set_prop (set_prop [] ''A'' (JNum 2)) ''1'' (JNum 3) = [(''1'', JNum 3), (''A'', JNum 2)]
   \<and> saveEnvironmentVariables (set_prop (set_prop [] ''A'' (JNum 2)) ''1'' (JNum 3)) Map.empty
        ENV_FILE_PATH = Some (Text ''1=3\<newline>A=2'')
   \<and> saveEnvironmentVariables (set_prop (set_prop [] ''A'' (JNum 2)) ''1'' (JNum 3)) Map.empty
        ENV_FILE_PATH \<noteq> Some (Text ''A=2\<newline>1=3'')"
proof -
  have a: "\<not> is_array_index ''A''"
    by (simp add: not_array_index is_digit_def)
  have i: "is_array_index ''1''"
    by (simp add: is_array_index_def is_digit_def decimal_value_def digit_value_def)
  have "set_prop (set_prop [] ''A'' (JNum 2)) ''1'' (JNum 3) = [(''1'', JNum 3), (''A'', JNum 2)]"
    by (simp add: set_prop_def a i)
  then show ?thesis
    by (simp add: saveEnvironmentVariables_def writeFileSync_def envContent_def digit_char_def)
qed

text \<open>
  C2. The promise of \<^verbatim>\<open>startLocalServer\<close> is resolved once: when one or more requests
  reach the callback route, the promise holds one callback result, with the \<^verbatim>\<open>code\<close> and
  \<^verbatim>\<open>installation_id\<close> of the first request, and requests that arrive after a resolution
  never change it.
\<close>

theorem first_callback_wins:
  "result (serve (startLocalServer port) (req # later)) =
     Resolved \<lparr> code = get_prop (query req) ''code'',
                installationId = get_prop (query req) ''installation_id'' \<rparr>
   \<and> result (serve (startLocalServer port) (req # later)) =
       result (serve (startLocalServer port) [req])
   \<and> (result (serve l reqs) \<noteq> Pending \<longrightarrow>
        result (serve l (reqs @ later)) = result (serve l reqs))"
proof (intro conjI impI)
  show "result (serve (startLocalServer port) (req # later)) =
          Resolved \<lparr> code = get_prop (query req) ''code'',
                     installationId = get_prop (query req) ''installation_id'' \<rparr>"
    by (rule result_serve_Cons)
  show "result (serve (startLocalServer port) (req # later)) =
          result (serve (startLocalServer port) [req])"
    by (simp add: result_serve_Cons)
next
  assume "result (serve l reqs) \<noteq> Pending"
  then obtain cb where "result (serve l reqs) = Resolved cb"
    by (cases "result (serve l reqs)") auto
  then show "result (serve l (reqs @ later)) = result (serve l reqs)"
    by (simp add: serve_append result_serve_Resolved)
qed

theorem first_callback_wins_witness:
  "result (serve (startLocalServer (JNum 3000)) [sample_request]) \<noteq> Pending
   \<and> result (serve (startLocalServer (JNum 3000))
        ([sample_request] @ [\<lparr> query = [(''code'', JStr ''xyz789''),
                                          (''installation_id'', JStr ''111'')] \<rparr>])) =
       Resolved \<lparr> code = JStr ''abc123'', installationId = JStr ''999'' \<rparr>"
  using first_callback_wins
    [of "JNum 3000" sample_request
        "[\<lparr> query = [(''code'', JStr ''xyz789''), (''installation_id'', JStr ''111'')] \<rparr>]"
        "startLocalServer (JNum 3000)" "[sample_request]"]
  by (simp add: result_serve_Cons sample_request_def get_prop_def)

text \<open>
  C3. After the promise is resolved the listener should be stopped and its port released.
  The code never closes the server: a server that listens still listens on its port
  whatever requests arrive, and the sample run ends with the promise resolved and the server
  listening on port 3000.
\<close>

theorem listener_left_listening:
  "(listening l \<longrightarrow>
      listening (serve l reqs) \<and> bound_port (serve l reqs) = bound_port l)
   \<and> (\<exists>final w' l. runInstallation sample_script sample_world = Done (final, w')
         \<and> server w' = Some l
         \<and> result l = Resolved \<lparr> code = JStr ''abc123'', installationId = JStr ''999'' \<rparr>
         \<and> listening l \<and> bound_port l = JStr ''3000'')"
proof (intro conjI impI)
  show "listening (serve l reqs)" if "listening l"
    using that by (simp add: listening_serve)
  show "bound_port (serve l reqs) = bound_port l"
    by (simp add: bound_port_serve)
  let ?config = "set_prop (answers sample_script) ''webhookUrl''
                   (JStr (getWebhookUrl (answers sample_script)))"
  obtain m secret r' where
    g: "generateGitHubAppManifest ?config (entropy sample_world) = Inr ((m, secret), r')"
    using manifest_Inr [of ?config "entropy sample_world"] by blast
  have cb: "callbacks sample_script = sample_request # []"
    and im: "installMethod sample_script = Interactive"
    and am: "authMethod sample_script = App"
    by (simp_all add: sample_script_def)
  have port: "js_or (get_prop (answers sample_script) ''port'') (JNum DEFAULT_PORT) = JStr ''3000''"
    by (simp add: sample_script_def get_prop_def js_or_def)
  let ?l = "serve (startLocalServer (JStr ''3000'')) [sample_request]"
  have "\<exists>final w'. runInstallation sample_script sample_world = Done (final, w')
          \<and> server w' = Some ?l"
    using runInstallation_app [OF im am cb g refl] by (simp add: port)
  moreover have "result ?l = Resolved \<lparr> code = JStr ''abc123'', installationId = JStr ''999'' \<rparr>"
    by (simp add: result_serve_Cons sample_request_def get_prop_def)
  moreover have "listening ?l" and "bound_port ?l = JStr ''3000''"
    by (simp_all add: listening_serve bound_port_serve startLocalServer_def)
  ultimately show "\<exists>final w' l. runInstallation sample_script sample_world = Done (final, w')
         \<and> server w' = Some l
         \<and> result l = Resolved \<lparr> code = JStr ''abc123'', installationId = JStr ''999'' \<rparr>
         \<and> listening l \<and> bound_port l = JStr ''3000''"
    by blast
qed

theorem listener_left_listening_witness:
  "listening (startLocalServer (JStr ''3000''))
   \<and> listening (serve (startLocalServer (JStr ''3000'')) [sample_request])
   \<and> bound_port (serve (startLocalServer (JStr ''3000'')) [sample_request]) = JStr ''3000''"
  using listener_left_listening [of "startLocalServer (JStr ''3000'')" "[sample_request]"]
  by (simp add: startLocalServer_def)

text \<open>
  C4. As stated, the response to a callback request would be one fixed page, the same for
  any two requests. The handler writes the request's \<^verbatim>\<open>installation_id\<close> and \<^verbatim>\<open>code\<close> into
  the page: the counterexample is two requests with different values and different bodies.
  Amended: every request to the callback route is answered with status 200 and the
  confirmation page into which its \<^verbatim>\<open>installation_id\<close> and \<^verbatim>\<open>code\<close> are interpolated; two
  requests with the same two values receive identical responses.
\<close>

theorem callback_response:
  assumes "listening l"
  shows "sent (deliver l req) =
           sent l @ [\<lparr> status = 200,
                       body = page (get_prop (query req) ''installation_id'')
                                (get_prop (query req) ''code'') \<rparr>]
         \<and> (listening l'
              \<and> get_prop (query req') ''code'' = get_prop (query req) ''code''
              \<and> get_prop (query req') ''installation_id'' = get_prop (query req) ''installation_id''
            \<longrightarrow> last (sent (deliver l' req')) = last (sent (deliver l req)))"
  using assms by (simp add: deliver_def callback_handler_def Let_def)

theorem callback_response_witness:
  "listening (startLocalServer (JNum 3000))
   \<and> sent (deliver (startLocalServer (JNum 3000)) sample_request) =
       [\<lparr> status = 200, body = page (JStr ''999'') (JStr ''abc123'') \<rparr>]
   \<and> listening (deliver (startLocalServer (JNum 3000)) sample_request)
   \<and> get_prop (query \<lparr> query = [(''installation_id'', JStr ''999''), (''code'', JStr ''abc123''),
                                 (''state'', JStr ''x'')] \<rparr>) ''code''
       = get_prop (query sample_request) ''code''
   \<and> get_prop (query \<lparr> query = [(''installation_id'', JStr ''999''), (''code'', JStr ''abc123''),
                                 (''state'', JStr ''x'')] \<rparr>) ''installation_id''
       = get_prop (query sample_request) ''installation_id''
   \<and> last (sent (deliver (deliver (startLocalServer (JNum 3000)) sample_request)
        \<lparr> query = [(''installation_id'', JStr ''999''), (''code'', JStr ''abc123''),
                    (''state'', JStr ''x'')] \<rparr>))
       = \<lparr> status = 200, body = page (JStr ''999'') (JStr ''abc123'') \<rparr>"
  using callback_response
    [of "startLocalServer (JNum 3000)" sample_request
        "deliver (startLocalServer (JNum 3000)) sample_request"
        "\<lparr> query = [(''installation_id'', JStr ''999''), (''code'', JStr ''abc123''),
                     (''state'', JStr ''x'')] \<rparr>"]
  by (simp add: startLocalServer_def sample_request_def get_prop_def listening_deliver)

theorem callback_response_counterexample:
  "status (last (sent (deliver (startLocalServer (JNum 3000))
           \<lparr> query = [(''code'', JStr ''abc123''), (''installation_id'', JStr ''999'')] \<rparr>))) = 200
   \<and> status (last (sent (deliver (startLocalServer (JNum 3000))
           \<lparr> query = [(''code'', JStr ''xyz789''), (''installation_id'', JStr ''111'')] \<rparr>))) = 200
   \<and> body (last (sent (deliver (startLocalServer (JNum 3000))
           \<lparr> query = [(''code'', JStr ''abc123''), (''installation_id'', JStr ''999'')] \<rparr>)))
      \<noteq> body (last (sent (deliver (startLocalServer (JNum 3000))
           \<lparr> query = [(''code'', JStr ''xyz789''), (''installation_id'', JStr ''111'')] \<rparr>)))"
  by (simp add: deliver_def callback_handler_def startLocalServer_def Let_def get_prop_def page_def)

text \<open>
  C5. Every request to the callback route resolves the promise, also when its query lacks
  \<^verbatim>\<open>code\<close>, \<^verbatim>\<open>installation_id\<close> or both: the handler has no failing path, it answers the
  request, and a pending promise is resolved with the fields the query holds, a missing
  field being \<^verbatim>\<open>undefined\<close>.
\<close>

theorem callback_always_resolves:
  assumes "listening l"
  shows "result (deliver l req) \<noteq> Pending
         \<and> (result l = Pending \<longrightarrow>
              result (deliver l req) =
                Resolved \<lparr> code = get_prop (query req) ''code'',
                           installationId = get_prop (query req) ''installation_id'' \<rparr>)
         \<and> (''code'' \<notin> fst ` set (query req) \<longrightarrow> get_prop (query req) ''code'' = JUndefined)
         \<and> (''installation_id'' \<notin> fst ` set (query req) \<longrightarrow>
              get_prop (query req) ''installation_id'' = JUndefined)
         \<and> length (sent (deliver l req)) = Suc (length (sent l))"
  using assms
  by (auto simp: deliver_def callback_handler_def Let_def resolve_not_Pending get_prop_def
      map_of_eq_None_iff [THEN iffD2] split: option.splits)

theorem callback_always_resolves_witness:
  "listening (startLocalServer (JNum 3000))
   \<and> result (startLocalServer (JNum 3000)) = Pending
   \<and> ''installation_id'' \<notin> fst ` set (query \<lparr> query = [(''code'', JStr ''abc123'')] \<rparr>)
   \<and> result (deliver (startLocalServer (JNum 3000)) \<lparr> query = [(''code'', JStr ''abc123'')] \<rparr>) =
       Resolved \<lparr> code = JStr ''abc123'', installationId = JUndefined \<rparr>
   \<and> ''code'' \<notin> fst ` set (query \<lparr> query = [] \<rparr>)
   \<and> result (deliver (startLocalServer (JNum 3000)) \<lparr> query = [] \<rparr>) =
       Resolved \<lparr> code = JUndefined, installationId = JUndefined \<rparr>"
  using callback_always_resolves
      [of "startLocalServer (JNum 3000)" "\<lparr> query = [(''code'', JStr ''abc123'')] \<rparr>"]
    callback_always_resolves [of "startLocalServer (JNum 3000)" "\<lparr> query = [] \<rparr>"]
  by (simp add: startLocalServer_def get_prop_def)

text \<open>
  C1. \<^verbatim>\<open>generateGitHubAppManifest\<close> returns the manifest with the webhook secret it embeds in
  \<^verbatim>\<open>hook_attributes.secret\<close>; and a run of the app-registration branch that receives its
  callback builds the manifest in one call, saves and opens that manifest, draws no further
  bytes, and ends with that call's secret under \<^verbatim>\<open>WEBHOOK_SECRET\<close> in the final
  configuration. The environment file it writes is the rendering of that configuration and
  holds the line \<^verbatim>\<open>WEBHOOK_SECRET=\<close> followed by the manifest's secret.
\<close>

theorem webhook_secret_never_diverges:
  "(\<exists>m secret r'. generateGitHubAppManifest config r = Inr ((m, secret), r')
      \<and> hook_secret (hook_attributes m) = secret)
   \<and> (installMethod sc = Interactive \<and> authMethod sc = App \<and> callbacks sc \<noteq> [] \<longrightarrow>
        (\<exists>final w' m secret r' pre post.
           runInstallation sc w = Done (final, w')
           \<and> generateGitHubAppManifest
                (set_prop (answers sc) ''webhookUrl'' (JStr (getWebhookUrl (answers sc))))
                (entropy w) = Inr ((m, secret), r')
           \<and> entropy w' = r'
           \<and> files w' MANIFEST_FILE_PATH = Some (Json m)
           \<and> browser w' = browser w @ [m]
           \<and> hook_secret (hook_attributes m) = secret
           \<and> get_prop final ''WEBHOOK_SECRET'' = JStr secret
           \<and> (''WEBHOOK_SECRET'', JStr secret) \<in> set final
           \<and> files w' ENV_FILE_PATH =
               Some (Text (join ''\<newline>''
                 (map (\<lambda>(key, value). key @ ''='' @ template value) final)))
           \<and> files w' ENV_FILE_PATH =
               Some (Text (pre @ ''WEBHOOK_SECRET='' @ hook_secret (hook_attributes m) @ post))
           \<and> (pre = [] \<or> (\<exists>p. pre = p @ ''\<newline>''))
           \<and> (post = [] \<or> (\<exists>p. post = ''\<newline>'' @ p))))"
proof (intro conjI impI)
  show "\<exists>m secret r'. generateGitHubAppManifest config r = Inr ((m, secret), r')
          \<and> hook_secret (hook_attributes m) = secret"
    by (simp add: manifest_Inr)
next
  assume a: "installMethod sc = Interactive \<and> authMethod sc = App \<and> callbacks sc \<noteq> []"
  then obtain req later where cb: "callbacks sc = req # later"
    by (cases "callbacks sc") auto
  let ?config = "set_prop (answers sc) ''webhookUrl'' (JStr (getWebhookUrl (answers sc)))"
  let ?line = "\<lambda>(key, value). key @ ''='' @ template value"
  obtain m secret r' where g: "generateGitHubAppManifest ?config (entropy w) = Inr ((m, secret), r')"
    using manifest_Inr [of ?config "entropy w"] by blast
  define final where "final = set_prop (set_prop (set_prop (set_prop ?config
               ''WEBHOOK_SECRET'' (JStr secret))
               ''GITHUB_APP_ID'' (JStr ''GET_FROM_GITHUB_APP_SETTINGS''))
               ''GITHUB_APP_INSTALLATION_ID'' (get_prop (query req) ''installation_id''))
               ''GITHUB_PRIVATE_KEY'' (JStr ''DOWNLOAD_FROM_GITHUB_APP_SETTINGS'')"
  define w' where "w' = w\<lparr> entropy := r',
              files := writeFileSync ''INSTALL.md'' InstallGuideText
                         (saveEnvironmentVariables final (saveManifest m (files w))),
              browser := browser w @ [m],
              server := Some (serve (startLocalServer
                 (js_or (get_prop (answers sc) ''port'') (JNum DEFAULT_PORT))) (req # later)) \<rparr>"
  have run: "runInstallation sc w = Done (final, w')"
    unfolding w'_def using a cb g final_def by (intro runInstallation_app) simp_all
  have sec: "hook_secret (hook_attributes m) = secret"
    using manifest_Inr [of ?config "entropy w"] g by auto
  have got: "get_prop final ''WEBHOOK_SECRET'' = JStr secret"
    by (simp add: final_def get_prop_set_prop plain_installer_keys)
  have mem: "(''WEBHOOK_SECRET'', JStr secret) \<in> set final"
    unfolding final_def
    by (intro set_prop_keeps set_prop_mem) (simp_all add: plain_installer_keys)
  have mf: "files w' MANIFEST_FILE_PATH = Some (Json m)"
    by (simp add: w'_def writeFileSync_def saveEnvironmentVariables_def saveManifest_def
        MANIFEST_FILE_PATH_def ENV_FILE_PATH_def)
  have ef: "files w' ENV_FILE_PATH = Some (Text (join ''\<newline>'' (map ?line final)))"
    by (simp add: w'_def writeFileSync_def saveEnvironmentVariables_def ENV_FILE_PATH_def
        envContent_def)
  from mem have "''WEBHOOK_SECRET='' @ secret \<in> set (map ?line final)"
    by force
  from join_line [OF this, of "''\<newline>''"] obtain pre post where
    "join ''\<newline>'' (map ?line final) = pre @ (''WEBHOOK_SECRET='' @ secret) @ post"
    and pp: "pre = [] \<or> (\<exists>p. pre = p @ ''\<newline>'')" "post = [] \<or> (\<exists>p. post = ''\<newline>'' @ p)"
    by blast
  with ef sec have ln:
    "files w' ENV_FILE_PATH =
       Some (Text (pre @ ''WEBHOOK_SECRET='' @ hook_secret (hook_attributes m) @ post))"
    by simp
  have "entropy w' = r'" and "browser w' = browser w @ [m]"
    by (simp_all add: w'_def)
  with run g sec got mem mf ef ln pp
  show "\<exists>final w' m secret r' pre post.
           runInstallation sc w = Done (final, w')
           \<and> generateGitHubAppManifest ?config (entropy w) = Inr ((m, secret), r')
           \<and> entropy w' = r'
           \<and> files w' MANIFEST_FILE_PATH = Some (Json m)
           \<and> browser w' = browser w @ [m]
           \<and> hook_secret (hook_attributes m) = secret
           \<and> get_prop final ''WEBHOOK_SECRET'' = JStr secret
           \<and> (''WEBHOOK_SECRET'', JStr secret) \<in> set final
           \<and> files w' ENV_FILE_PATH = Some (Text (join ''\<newline>'' (map ?line final)))
           \<and> files w' ENV_FILE_PATH =
               Some (Text (pre @ ''WEBHOOK_SECRET='' @ hook_secret (hook_attributes m) @ post))
           \<and> (pre = [] \<or> (\<exists>p. pre = p @ ''\<newline>''))
           \<and> (post = [] \<or> (\<exists>p. post = ''\<newline>'' @ p))"
    by blast
qed

theorem webhook_secret_never_diverges_witness:
  "installMethod sample_script = Interactive \<and> authMethod sample_script = App
   \<and> callbacks sample_script \<noteq> []
   \<and> (\<exists>final w' m.
         runInstallation sample_script sample_world = Done (final, w')
         \<and> files w' MANIFEST_FILE_PATH = Some (Json m)
         \<and> hook_secret (hook_attributes m) = ''052a4f7499bee3082d52779cc1e60b30''
         \<and> get_prop final ''WEBHOOK_SECRET'' = JStr ''052a4f7499bee3082d52779cc1e60b30''
         \<and> files w' ENV_FILE_PATH =
             Some (Text ''appNameSuffix=\<newline>host=http://localhost\<newline>port=3000\<newline>CLAUDE_API_KEY=sk-0123456789abcdefghij\<newline>webhookUrl=http://localhost:3000/api/webhook\<newline>WEBHOOK_SECRET=052a4f7499bee3082d52779cc1e60b30\<newline>GITHUB_APP_ID=GET_FROM_GITHUB_APP_SETTINGS\<newline>GITHUB_APP_INSTALLATION_ID=999\<newline>GITHUB_PRIVATE_KEY=DOWNLOAD_FROM_GITHUB_APP_SETTINGS''))"
proof -
  let ?config = "set_prop (answers sample_script) ''webhookUrl''
                   (JStr (getWebhookUrl (answers sample_script)))"
  have h: "installMethod sample_script = Interactive \<and> authMethod sample_script = App
           \<and> callbacks sample_script \<noteq> []"
    by (simp add: sample_script_def)
  have cb: "callbacks sample_script = sample_request # []"
    by (simp add: sample_script_def)
  have s: "hex_digits (map (entropy sample_world) [0..<16]) = ''052a4f7499bee3082d52779cc1e60b30''"
    by (simp add: sample_world_def sample_entropy_def hex_digits_def hex_byte_def
        digit_char_def upt_rec)
  from webhook_secret_never_diverges
         [of "answers sample_script" sample_entropy sample_script sample_world] h
  obtain final w' m secret r' where
    run: "runInstallation sample_script sample_world = Done (final, w')"
    and g: "generateGitHubAppManifest ?config (entropy sample_world) = Inr ((m, secret), r')"
    and mf: "files w' MANIFEST_FILE_PATH = Some (Json m)"
    and sec: "hook_secret (hook_attributes m) = secret"
    and got: "get_prop final ''WEBHOOK_SECRET'' = JStr secret"
    and ef: "files w' ENV_FILE_PATH =
               Some (Text (join ''\<newline>''
                 (map (\<lambda>(key, value). key @ ''='' @ template value) final)))"
    by blast
  from g s have secret: "secret = ''052a4f7499bee3082d52779cc1e60b30''"
    by (simp add: manifest_Inr)
  from run runInstallation_app [OF h [THEN conjunct1] h [THEN conjunct2, THEN conjunct1] cb g refl]
  have final: "final = set_prop (set_prop (set_prop (set_prop ?config
               ''WEBHOOK_SECRET'' (JStr secret))
               ''GITHUB_APP_ID'' (JStr ''GET_FROM_GITHUB_APP_SETTINGS''))
               ''GITHUB_APP_INSTALLATION_ID'' (get_prop (query sample_request) ''installation_id''))
               ''GITHUB_PRIVATE_KEY'' (JStr ''DOWNLOAD_FROM_GITHUB_APP_SETTINGS'')"
    by simp
  have "final =
     [(''appNameSuffix'', JStr []), (''host'', JStr ''http://localhost''),
      (''port'', JStr ''3000''), (''CLAUDE_API_KEY'', JStr ''sk-0123456789abcdefghij''),
      (''webhookUrl'', JStr ''http://localhost:3000/api/webhook''),
      (''WEBHOOK_SECRET'', JStr ''052a4f7499bee3082d52779cc1e60b30''),
      (''GITHUB_APP_ID'', JStr ''GET_FROM_GITHUB_APP_SETTINGS''),
      (''GITHUB_APP_INSTALLATION_ID'', JStr ''999''),
      (''GITHUB_PRIVATE_KEY'', JStr ''DOWNLOAD_FROM_GITHUB_APP_SETTINGS'')]"
    unfolding final secret
    by (simp add: set_prop_plain plain_installer_keys sample_script_def sample_request_def
        getWebhookUrl_def get_prop_def js_or_def)
  with ef have "files w' ENV_FILE_PATH =
             Some (Text ''appNameSuffix=\<newline>host=http://localhost\<newline>port=3000\<newline>CLAUDE_API_KEY=sk-0123456789abcdefghij\<newline>webhookUrl=http://localhost:3000/api/webhook\<newline>WEBHOOK_SECRET=052a4f7499bee3082d52779cc1e60b30\<newline>GITHUB_APP_ID=GET_FROM_GITHUB_APP_SETTINGS\<newline>GITHUB_APP_INSTALLATION_ID=999\<newline>GITHUB_PRIVATE_KEY=DOWNLOAD_FROM_GITHUB_APP_SETTINGS'')"
    by simp
  with h run mf sec got secret show ?thesis by auto
qed

end
